theory Spec2Isabelle
  imports Main "HOL-Library.Word" "HOL-Library.AList"
begin

unbundle bit_operations_syntax

section \<open>Data model\<close>

text \<open>
  The gRPC proxy's frame relay, \<^verbatim>\<open>pkg/core/proxy/integrations/grpc/frame.go\<close>.
  Byte slices are lists of 8-bit words, Go strings are Isabelle strings, and
  \<^verbatim>\<open>uint32\<close>, \<^verbatim>\<open>uint16\<close> and \<^verbatim>\<open>uint8\<close> are words of that width.
  A \<^verbatim>\<open>time.Time\<close> is an abstract instant.
\<close>

type_synonym bytes = "8 word list"
type_synonym time = nat

subsection \<open>Errors\<close>

text \<open>
  Go errors are values compared by identity. \<open>io_EOF\<close> is the sentinel \<^verbatim>\<open>io.EOF\<close>,
  \<open>context_error\<close> holds what \<^verbatim>\<open>ctx.Err()\<close> returns once the context is done,
  \<open>lib_error\<close> is any other error of a library (named by its message), and
  \<open>fmt_Errorf\<close> is the fresh error that \<^verbatim>\<open>fmt.Errorf\<close> builds from its formatted
  message.
\<close>

datatype ctx_error = Canceled | DeadlineExceeded

datatype error =
    io_EOF
  | context_error ctx_error
  | lib_error string
  | fmt_Errorf string

text \<open>The method \<^verbatim>\<open>Error()\<close>, which the verb \<^verbatim>\<open>%v\<close> prints.\<close>

fun Error :: "error \<Rightarrow> string" where
  "Error io_EOF = ''EOF''"
| "Error (context_error Canceled) = ''context canceled''"
| "Error (context_error DeadlineExceeded) = ''context deadline exceeded''"
| "Error (lib_error msg) = msg"
| "Error (fmt_Errorf msg) = msg"

subsection \<open>Go maps from string to string\<close>

text \<open>
  A \<^verbatim>\<open>map[string]string\<close> is the list of its entries with pairwise different keys;
  the order of the list is the order in which \<^verbatim>\<open>range\<close> visits the entries, which Go
  leaves unspecified. \<open>make_map\<close> is \<^verbatim>\<open>make(map[string]string)\<close>, \<open>assign m k v\<close>
  is \<^verbatim>\<open>m[k] = v\<close> and \<open>map_of m k\<close> is the lookup \<^verbatim>\<open>m[k]\<close>.
\<close>

type_synonym gomap = "(string \<times> string) list"

definition wf_map :: "gomap \<Rightarrow> bool" where
  "wf_map m = distinct (map fst m)"

definition make_map :: gomap where
  "make_map = []"

definition assign :: "gomap \<Rightarrow> string \<Rightarrow> string \<Rightarrow> gomap" where
  "assign m k v = AList.update k v m"

subsection \<open>The trailer classifier\<close>

text \<open>\<^verbatim>\<open>strings.HasPrefix(s, prefix)\<close>: \<^verbatim>\<open>len(s) >= len(prefix) && s[:len(prefix)] == prefix\<close>.\<close>

definition HasPrefix :: "string \<Rightarrow> string \<Rightarrow> bool" where
  "HasPrefix s pre = (length s \<ge> length pre \<and> take (length pre) s = pre)"

text \<open>
  The body of the \<^verbatim>\<open>range\<close> loop of \<^verbatim>\<open>splitGrpcTrailerHeaders\<close>, run over the entries
  still to visit, with the two result maps as accumulators.
\<close>

fun split_loop :: "(string \<times> string) list \<Rightarrow> gomap \<times> gomap \<Rightarrow> gomap \<times> gomap" where
  "split_loop [] (normal, trailer) = (normal, trailer)"
| "split_loop ((k, v) # rest) (normal, trailer) =
     (if HasPrefix k ''grpc-''
      then split_loop rest (normal, assign trailer k v)
      else split_loop rest (assign normal k v, trailer))"

definition splitGrpcTrailerHeaders :: "gomap \<Rightarrow> gomap \<times> gomap" where
  "splitGrpcTrailerHeaders headers = split_loop headers (make_map, make_map)"

subsection \<open>The header codec\<close>

text \<open>
  \<^verbatim>\<open>hpack.HeaderField\<close> and its method \<^verbatim>\<open>IsPseudo\<close>
  (\<^verbatim>\<open>len(hf.Name) != 0 && hf.Name[0] == ':'\<close>).
\<close>

record HeaderField =
  Name :: string
  Value :: string
  Sensitive :: bool

definition IsPseudo :: "HeaderField \<Rightarrow> bool" where
  "IsPseudo hf = (case Name hf of [] \<Rightarrow> False | c # _ \<Rightarrow> c = CHR '':'')"

text \<open>
  The HPACK decoder is a parameter: \<open>DecodeFull d p\<close> is the result of
  \<^verbatim>\<open>decoder.DecodeFull(p)\<close> on a decoder in state \<open>d\<close>, with the decoder's next state
  (its dynamic table changes with every block it reads).
\<close>

type_synonym 'd hpack = "'d \<Rightarrow> bytes \<Rightarrow> (error + HeaderField list) \<times> 'd"

text \<open>The loop over the decoded fields of \<^verbatim>\<open>extractHeaders\<close>.\<close>

fun extract_loop :: "HeaderField list \<Rightarrow> gomap \<times> gomap \<Rightarrow> gomap \<times> gomap" where
  "extract_loop [] (pseudoHeaders, ordinaryHeaders) = (pseudoHeaders, ordinaryHeaders)"
| "extract_loop (header # rest) (pseudoHeaders, ordinaryHeaders) =
     (if IsPseudo header
      then extract_loop rest (assign pseudoHeaders (Name header) (Value header), ordinaryHeaders)
      else extract_loop rest (pseudoHeaders, assign ordinaryHeaders (Name header) (Value header)))"

text \<open>
  \<^verbatim>\<open>extractHeaders\<close>, given the header block fragment of the frame. The result
  \<open>Inl err\<close> is the return \<^verbatim>\<open>nil, nil, err\<close>; \<open>Inr (pseudoHeaders, ordinaryHeaders)\<close> is
  the return with a \<^verbatim>\<open>nil\<close> error.
\<close>

definition extractHeaders ::
  "'d hpack \<Rightarrow> bytes \<Rightarrow> 'd \<Rightarrow> (error + gomap \<times> gomap) \<times> 'd" where
  "extractHeaders DecodeFull fragment d =
     (case DecodeFull d fragment of
        (Inl err, d') \<Rightarrow> (Inl (fmt_Errorf (''could not decode headers: '' @ Error err)), d')
      | (Inr hf, d') \<Rightarrow> (Inr (extract_loop hf (make_map, make_map)), d'))"

subsection \<open>HTTP/2 frames\<close>

text \<open>
  The frames that \<^verbatim>\<open>framer.ReadFrame()\<close> returns, as package \<^verbatim>\<open>http2\<close> declares
  them. Every frame embeds a \<^verbatim>\<open>FrameHeader\<close>; a flag is read with
  \<^verbatim>\<open>Flags.Has\<close> (\<^verbatim>\<open>(f & v) == v\<close>).
\<close>

record FrameHeader =
  Type :: "8 word"
  Flags :: "8 word"
  Length :: "32 word"
  StreamID :: "32 word"

definition Has :: "8 word \<Rightarrow> 8 word \<Rightarrow> bool" where
  "Has f v = (f AND v = v)"

definition FlagEndStream :: "8 word" where "FlagEndStream = 0x1"
definition FlagAck :: "8 word" where "FlagAck = 0x1"
definition FlagEndHeaders :: "8 word" where "FlagEndHeaders = 0x4"

text \<open>
  \<open>StreamEnded\<close> is the method of \<^verbatim>\<open>HeadersFrame\<close> and \<^verbatim>\<open>DataFrame\<close>, \<open>HeadersEnded\<close>
  the one of \<^verbatim>\<open>HeadersFrame\<close>, \<^verbatim>\<open>ContinuationFrame\<close> and \<^verbatim>\<open>PushPromiseFrame\<close>, and
  \<open>IsAck\<close> the one of \<^verbatim>\<open>SettingsFrame\<close> and \<^verbatim>\<open>PingFrame\<close>.
\<close>

definition StreamEnded :: "FrameHeader \<Rightarrow> bool" where
  "StreamEnded fh = Has (Flags fh) FlagEndStream"

definition HeadersEnded :: "FrameHeader \<Rightarrow> bool" where
  "HeadersEnded fh = Has (Flags fh) FlagEndHeaders"

definition IsAck :: "FrameHeader \<Rightarrow> bool" where
  "IsAck fh = Has (Flags fh) FlagAck"

record Setting =
  ID :: "16 word"
  Val :: "32 word"

record PriorityParam =
  StreamDep :: "32 word"
  Exclusive :: bool
  Weight :: "8 word"

text \<open>
  The arguments of the constructors, in order:
  \<^item> \<open>SettingsFrame\<close>: header, the settings of the payload in order;
  \<^item> \<open>HeadersFrame\<close>: header, \<^verbatim>\<open>Priority\<close>, \<^verbatim>\<open>HeaderBlockFragment()\<close>;
  \<^item> \<open>DataFrame\<close>: header, \<^verbatim>\<open>Data()\<close>;
  \<^item> \<open>PingFrame\<close>: header, \<^verbatim>\<open>Data\<close>;
  \<^item> \<open>WindowUpdateFrame\<close>: header, \<^verbatim>\<open>Increment\<close>;
  \<^item> \<open>ContinuationFrame\<close>: header, \<^verbatim>\<open>HeaderBlockFragment()\<close>;
  \<^item> \<open>PriorityFrame\<close>: header, \<^verbatim>\<open>PriorityParam\<close>;
  \<^item> \<open>RSTStreamFrame\<close>: header, \<^verbatim>\<open>ErrCode\<close>;
  \<^item> \<open>GoAwayFrame\<close>: header, \<^verbatim>\<open>LastStreamID\<close>, \<^verbatim>\<open>ErrCode\<close>, \<^verbatim>\<open>DebugData()\<close>;
  \<^item> \<open>PushPromiseFrame\<close>: header, \<^verbatim>\<open>PromiseID\<close>, \<^verbatim>\<open>HeaderBlockFragment()\<close>;
  \<^item> \<open>UnknownFrame\<close>: header, payload. It is what \<^verbatim>\<open>ReadFrame\<close> returns for a frame
    type that has no parser of its own.

  The framer of \<^verbatim>\<open>transferFrame\<close> comes from \<^verbatim>\<open>http2.NewFramer\<close> and has no
  \<^verbatim>\<open>ReadMetaHeaders\<close> decoder, so it returns no \<^verbatim>\<open>MetaHeadersFrame\<close>.
\<close>

datatype Frame =
    SettingsFrame FrameHeader "Setting list"
  | HeadersFrame FrameHeader PriorityParam bytes
  | DataFrame FrameHeader bytes
  | PingFrame FrameHeader bytes
  | WindowUpdateFrame FrameHeader "32 word"
  | ContinuationFrame FrameHeader bytes
  | PriorityFrame FrameHeader PriorityParam
  | RSTStreamFrame FrameHeader "32 word"
  | GoAwayFrame FrameHeader "32 word" "32 word" bytes
  | PushPromiseFrame FrameHeader "32 word" bytes
  | UnknownFrame FrameHeader bytes

text \<open>
  \<^verbatim>\<open>SettingsFrame.ForeachSetting(fn)\<close> calls \<open>fn\<close> on each setting in order and
  stops at the first error; \<open>a\<close> is the state that the closure \<open>fn\<close> updates.
\<close>

fun ForeachSetting ::
  "Setting list \<Rightarrow> (Setting \<Rightarrow> 'a \<Rightarrow> error option \<times> 'a) \<Rightarrow> 'a \<Rightarrow> error option \<times> 'a" where
  "ForeachSetting [] fn a = (None, a)"
| "ForeachSetting (setting # rest) fn a =
     (case fn setting a of
        (Some err, a') \<Rightarrow> (Some err, a')
      | (None, a') \<Rightarrow> ForeachSetting rest fn a')"

subsection \<open>Calls on the framer and on the stream store\<close>

record HeadersFrameParam =
  hfp_StreamID :: "32 word"
  hfp_BlockFragment :: bytes
  hfp_EndStream :: bool
  hfp_EndHeaders :: bool
  hfp_PadLength :: "8 word"
  hfp_Priority :: PriorityParam

record PushPromiseParam =
  ppp_StreamID :: "32 word"
  ppp_PromiseID :: "32 word"
  ppp_BlockFragment :: bytes
  ppp_EndHeaders :: bool
  ppp_PadLength :: "8 word"

text \<open>
  The write methods of \<^verbatim>\<open>http2.Framer\<close> that \<^verbatim>\<open>transferFrame\<close> calls, each with its
  arguments in the order of its signature: \<^verbatim>\<open>WriteData(streamID, endStream, data)\<close>,
  \<^verbatim>\<open>WritePing(ack, data)\<close>, \<^verbatim>\<open>WriteWindowUpdate(streamID, incr)\<close>,
  \<^verbatim>\<open>WriteContinuation(streamID, endHeaders, headerBlockFragment)\<close>,
  \<^verbatim>\<open>WritePriority(streamID, p)\<close>, \<^verbatim>\<open>WriteRSTStream(streamID, code)\<close>,
  \<^verbatim>\<open>WriteGoAway(maxStreamID, code, debugData)\<close>.
\<close>

datatype write_call =
    WriteSettingsAck
  | WriteSettings "Setting list"
  | WriteHeaders HeadersFrameParam
  | WriteData "32 word" bool bytes
  | WritePing bool bytes
  | WriteWindowUpdate "32 word" "32 word"
  | WriteContinuation "32 word" bool bytes
  | WritePriority "32 word" PriorityParam
  | WriteRSTStream "32 word" "32 word"
  | WriteGoAway "32 word" "32 word" bytes
  | WritePushPromise PushPromiseParam

text \<open>
  The methods of \<^verbatim>\<open>StreamInfoCollection\<close> that \<^verbatim>\<open>transferFrame\<close> calls, with their
  arguments (the context and the channel of \<^verbatim>\<open>PersistMockForStream\<close> apart, which
  are those of \<^verbatim>\<open>transferFrame\<close>). Their bodies are in another file of the
  package, so the store keeps the calls it received, in order, next to the two
  timestamp fields that \<^verbatim>\<open>transferFrame\<close> assigns itself.
\<close>

datatype sic_call =
    AddHeadersForRequest "32 word" gomap bool
  | AddHeadersForResponse "32 word" gomap bool bool
  | AddPayloadForRequest "32 word" bytes
  | AddPayloadForResponse "32 word" bytes
  | PersistMockForStream "32 word"
  | ResetStream "32 word"

record StreamInfoCollection =
  calls :: "sic_call list"
  ReqTimestampMock :: time
  ResTimestampMock :: time

text \<open>
  What one call of \<^verbatim>\<open>transferFrame\<close> works on: the store \<open>sic\<close>, the write calls
  made so far on the framer of the destination connection \<open>lhs\<close>, and the state
  of the HPACK decoder.
\<close>

record 'd relay =
  sic :: StreamInfoCollection
  lhs :: "write_call list"
  decoder :: 'd

definition invoke :: "sic_call \<Rightarrow> 'd relay \<Rightarrow> 'd relay" where
  "invoke c s = s\<lparr>sic := (sic s)\<lparr>calls := calls (sic s) @ [c]\<rparr>\<rparr>"

definition framer_write :: "write_call \<Rightarrow> 'd relay \<Rightarrow> 'd relay" where
  "framer_write w s = s\<lparr>lhs := lhs s @ [w]\<rparr>"

text \<open>
  What the surroundings answer during one iteration of the loop: \<open>ctx_Err\<close> is
  \<open>None\<close> while \<^verbatim>\<open>ctx.Done()\<close> is open and the value of \<^verbatim>\<open>ctx.Err()\<close> once it is
  closed; \<open>ReadFrame\<close> is the result of \<^verbatim>\<open>framer.ReadFrame()\<close>; \<open>write_err\<close> is the
  error returned by the write on the framer, if the iteration makes one; \<open>Now\<close>
  is the value of \<^verbatim>\<open>time.Now()\<close>.
\<close>

record env =
  ctx_Err :: "ctx_error option"
  ReadFrame :: "error + Frame"
  write_err :: "error option"
  Now :: time

section \<open>The relay loop\<close>

text \<open>
  A write on the framer followed by the check of its error: the call is made, and
  a failure returns \<^verbatim>\<open>fmt.Errorf(msg + "%v", err)\<close>. The result \<open>(Some err, s)\<close> is
  \<^verbatim>\<open>return err\<close> and \<open>(None, s)\<close> falls out of the \<^verbatim>\<open>switch\<close>.
\<close>

definition forward ::
  "write_call \<Rightarrow> string \<Rightarrow> env \<Rightarrow> 'd relay \<Rightarrow> error option \<times> 'd relay" where
  "forward w msg e s =
     (case write_err e of
        Some err \<Rightarrow> (Some (fmt_Errorf (msg @ Error err)), framer_write w s)
      | None \<Rightarrow> (None, framer_write w s))"

text \<open>The \<^verbatim>\<open>switch frame := frame.(type)\<close> of \<^verbatim>\<open>transferFrame\<close>, one equation per case.\<close>

fun dispatch ::
  "'d hpack \<Rightarrow> bool \<Rightarrow> env \<Rightarrow> Frame \<Rightarrow> 'd relay \<Rightarrow> error option \<times> 'd relay" where
  "dispatch DecodeFull reqFromClient e (SettingsFrame fh settings) s =
     (if IsAck fh
      then forward WriteSettingsAck ''could not write ack for settings frame: '' e s
      else
        (case ForeachSetting settings
                (\<lambda>setting settingsCollection. (None, settingsCollection @ [setting])) [] of
           (Some err, settingsCollection) \<Rightarrow>
             (Some (fmt_Errorf (''could not read settings from settings frame: '' @ Error err)), s)
         | (None, settingsCollection) \<Rightarrow>
             forward (WriteSettings settingsCollection) ''could not write settings fraame: '' e s))"
| "dispatch DecodeFull reqFromClient e (HeadersFrame fh priority fragment) s =
     (let respFromServer = \<not> reqFromClient;
          streamID = StreamID fh;
          s1 = framer_write (WriteHeaders \<lparr>
                 hfp_StreamID = streamID,
                 hfp_BlockFragment = fragment,
                 hfp_EndStream = StreamEnded fh,
                 hfp_EndHeaders = HeadersEnded fh,
                 hfp_PadLength = 0,
                 hfp_Priority = priority\<rparr>) s
      in case write_err e of
           Some err \<Rightarrow> (Some (fmt_Errorf (''could not write headers frame: '' @ Error err)), s1)
         | None \<Rightarrow>
            (case extractHeaders DecodeFull fragment (decoder s1) of
               (Inl err, d') \<Rightarrow>
                 (Some (fmt_Errorf (''could not extract headers from frame: '' @ Error err)),
                  s1\<lparr>decoder := d'\<rparr>)
             | (Inr (pseudoHeaders, ordinaryHeaders), d') \<Rightarrow>
                 (let s2 = s1\<lparr>decoder := d'\<rparr>;
                      s3 =
                        (if reqFromClient then
                           invoke (AddHeadersForRequest streamID ordinaryHeaders False)
                             (invoke (AddHeadersForRequest streamID pseudoHeaders True) s2)
                         else if respFromServer then
                           (if StreamEnded fh then
                              (let (pseudoNormal, pseudoTrailer) = splitGrpcTrailerHeaders pseudoHeaders;
                                   (ordinaryNormal, ordinaryTrailer) = splitGrpcTrailerHeaders ordinaryHeaders
                               in invoke (AddHeadersForResponse streamID ordinaryTrailer False True)
                                    (invoke (AddHeadersForResponse streamID pseudoTrailer True True)
                                      (invoke (AddHeadersForResponse streamID ordinaryNormal False False)
                                        (invoke (AddHeadersForResponse streamID pseudoNormal True False) s2))))
                            else
                              invoke (AddHeadersForResponse streamID ordinaryHeaders False False)
                                (invoke (AddHeadersForResponse streamID pseudoHeaders True False) s2))
                         else s2);
                      s4 =
                        (if respFromServer \<and> StreamEnded fh then
                           invoke (ResetStream streamID) (invoke (PersistMockForStream streamID) s3)
                         else s3)
                  in (None, s4))))"
| "dispatch DecodeFull reqFromClient e (DataFrame fh data) s =
     (let respFromServer = \<not> reqFromClient;
          s1 = framer_write (WriteData (StreamID fh) (StreamEnded fh) data) s
      in case write_err e of
           Some err \<Rightarrow> (Some (fmt_Errorf (''could not write data frame: '' @ Error err)), s1)
         | None \<Rightarrow>
            (if reqFromClient then
               (None, invoke (AddPayloadForRequest (StreamID fh) data)
                        (s1\<lparr>sic := (sic s1)\<lparr>ReqTimestampMock := Now e\<rparr>\<rparr>))
             else if respFromServer then
               (None, invoke (AddPayloadForResponse (StreamID fh) data)
                        (s1\<lparr>sic := (sic s1)\<lparr>ResTimestampMock := Now e\<rparr>\<rparr>))
             else (None, s1)))"
| "dispatch DecodeFull reqFromClient e (PingFrame fh data) s =
     forward (WritePing (IsAck fh) data) ''could not write ACK for ping: '' e s"
| "dispatch DecodeFull reqFromClient e (WindowUpdateFrame fh increment) s =
     forward (WriteWindowUpdate (StreamID fh) increment) ''could not write window tools frame: '' e s"
| "dispatch DecodeFull reqFromClient e (ContinuationFrame fh fragment) s =
     forward (WriteContinuation (StreamID fh) (HeadersEnded fh) fragment)
       ''could not write continuation frame: '' e s"
| "dispatch DecodeFull reqFromClient e (PriorityFrame fh priorityParam) s =
     forward (WritePriority (StreamID fh) priorityParam) ''could not write priority frame: '' e s"
| "dispatch DecodeFull reqFromClient e (RSTStreamFrame fh errCode) s =
     forward (WriteRSTStream (StreamID fh) errCode) ''could not write reset stream frame: '' e s"
| "dispatch DecodeFull reqFromClient e (GoAwayFrame fh lastStreamID errCode debugData) s =
     forward (WriteGoAway (StreamID fh) errCode debugData) ''could not write GoAway frame: '' e s"
| "dispatch DecodeFull reqFromClient e (PushPromiseFrame fh promiseID fragment) s =
     forward (WritePushPromise \<lparr>
         ppp_StreamID = StreamID fh,
         ppp_PromiseID = promiseID,
         ppp_BlockFragment = fragment,
         ppp_EndHeaders = HeadersEnded fh,
         ppp_PadLength = 0\<rparr>) ''could not write PushPromise frame: '' e s"
| "dispatch DecodeFull reqFromClient e (UnknownFrame fh payload) s = (None, s)"

text \<open>
  One iteration of the \<^verbatim>\<open>for\<close> loop: the \<^verbatim>\<open>select\<close> on \<^verbatim>\<open>ctx.Done()\<close>, then the read
  and the dispatch. \<open>(Some err, s)\<close> is \<^verbatim>\<open>return err\<close>; \<open>(None, s)\<close> goes round the loop.
\<close>

definition iteration ::
  "'d hpack \<Rightarrow> bool \<Rightarrow> env \<Rightarrow> 'd relay \<Rightarrow> error option \<times> 'd relay" where
  "iteration DecodeFull reqFromClient e s =
     (case ctx_Err e of
        Some c \<Rightarrow> (Some (context_error c), s)
      | None \<Rightarrow>
         (case ReadFrame e of
            Inl err \<Rightarrow>
              (if err = io_EOF then (Some err, s)
               else (Some (fmt_Errorf (''error reading frame '' @ Error err)), s))
          | Inr frame \<Rightarrow> dispatch DecodeFull reqFromClient e frame s))"

text \<open>
  \<^verbatim>\<open>transferFrame\<close> against the answers of its surroundings, one \<open>env\<close> for each
  iteration. The loop has no exit of its own: it returns from inside an
  iteration, and \<open>(None, s)\<close> says that it has not returned after the iterations
  given and is at the head of the loop in state \<open>s\<close>.
\<close>

fun transferFrame ::
  "'d hpack \<Rightarrow> bool \<Rightarrow> env list \<Rightarrow> 'd relay \<Rightarrow> error option \<times> 'd relay" where
  "transferFrame DecodeFull reqFromClient [] s = (None, s)"
| "transferFrame DecodeFull reqFromClient (e # es) s =
     (case iteration DecodeFull reqFromClient e s of
        (Some err, s') \<Rightarrow> (Some err, s')
      | (None, s') \<Rightarrow> transferFrame DecodeFull reqFromClient es s')"

subsection \<open>Observations on a run\<close>

text \<open>The calls that the store received between the states \<open>s\<close> and \<open>s'\<close>.\<close>

definition new_calls :: "'d relay \<Rightarrow> 'd relay \<Rightarrow> sic_call list" where
  "new_calls s s' = drop (length (calls (sic s))) (calls (sic s'))"

text \<open>
  The header of the Headers frame that an iteration has processed, that is read,
  forwarded without a write error and decoded without a decoding error; \<open>None\<close>
  when the iteration does anything else.
\<close>

definition headers_processed :: "'d hpack \<Rightarrow> env \<Rightarrow> 'd relay \<Rightarrow> FrameHeader option" where
  "headers_processed DecodeFull e s =
     (case ctx_Err e of
        Some c \<Rightarrow> None
      | None \<Rightarrow>
         (case ReadFrame e of
            Inr (HeadersFrame fh priority fragment) \<Rightarrow>
              (case write_err e of
                 Some err \<Rightarrow> None
               | None \<Rightarrow>
                  (case fst (extractHeaders DecodeFull fragment (decoder s)) of
                     Inl err \<Rightarrow> None
                   | Inr maps \<Rightarrow> Some fh))
          | _ \<Rightarrow> None))"

text \<open>Whether the iteration reads a Data frame.\<close>

definition reads_data :: "env \<Rightarrow> bool" where
  "reads_data e = (case ReadFrame e of Inr (DataFrame fh data) \<Rightarrow> True | _ \<Rightarrow> False)"

text \<open>
  A decoder for concrete runs: it decodes the header blocks of a table and
  rejects every other block; its state counts the blocks decoded.
\<close>

definition table_decoder :: "(bytes \<times> HeaderField list) list \<Rightarrow> nat hpack" where
  "table_decoder table d p =
     (case map_of table p of
        None \<Rightarrow> (Inl (lib_error ''decoding error: truncated headers''), d)
      | Some hf \<Rightarrow> (Inr hf, Suc d))"

text \<open>The store and the relay state before the first frame.\<close>

definition sic0 :: StreamInfoCollection where
  "sic0 = \<lparr>calls = [], ReqTimestampMock = 0, ResTimestampMock = 0\<rparr>"

definition relay0 :: "nat relay" where
  "relay0 = \<lparr>sic = sic0, lhs = [], decoder = 0\<rparr>"

section \<open>Go maps\<close>

lemma map_of_assign: "map_of (assign m k v) = (map_of m)(k \<mapsto> v)"
  by (simp add: assign_def update_conv')

lemma wf_map_assign: "wf_map m \<Longrightarrow> wf_map (assign m k v)"
  by (simp add: assign_def wf_map_def distinct_update)

lemma wf_map_make: "wf_map make_map"
  by (simp add: wf_map_def make_map_def)

section \<open>The trailer classifier is a partition\<close>

lemma split_loop_wf:
  "split_loop kvs (n, t) = (n', t') \<Longrightarrow> wf_map n \<Longrightarrow> wf_map t \<Longrightarrow> wf_map n' \<and> wf_map t'"
  by (induction kvs arbitrary: n t) (auto split: if_splits simp: wf_map_assign)

lemma split_loop_normal:
  "distinct (map fst kvs) \<Longrightarrow> split_loop kvs (n, t) = (n', t') \<Longrightarrow>
   map_of n' k = (if HasPrefix k ''grpc-'' then map_of n k
                  else (case map_of kvs k of Some v \<Rightarrow> Some v | None \<Rightarrow> map_of n k))"
proof (induction kvs arbitrary: n t)
  case Nil
  then show ?case by simp
next
  case (Cons kv rest)
  obtain k0 v0 where kv: "kv = (k0, v0)" by (cases kv)
  from Cons.prems(1) kv have fresh: "map_of rest k0 = None" and d: "distinct (map fst rest)"
    by (auto simp: map_of_eq_None_iff)
  show ?case
  proof (cases "HasPrefix k0 ''grpc-''")
    case True
    with Cons.prems(2) kv have "split_loop rest (n, assign t k0 v0) = (n', t')" by simp
    from Cons.IH [OF d this] True kv show ?thesis by auto
  next
    case False
    with Cons.prems(2) kv have "split_loop rest (assign n k0 v0, t) = (n', t')" by simp
    from Cons.IH [OF d this] False kv fresh show ?thesis
      by (auto simp: map_of_assign split: option.splits)
  qed
qed

lemma split_loop_trailer:
  "distinct (map fst kvs) \<Longrightarrow> split_loop kvs (n, t) = (n', t') \<Longrightarrow>
   map_of t' k = (if HasPrefix k ''grpc-''
                  then (case map_of kvs k of Some v \<Rightarrow> Some v | None \<Rightarrow> map_of t k)
                  else map_of t k)"
proof (induction kvs arbitrary: n t)
  case Nil
  then show ?case by simp
next
  case (Cons kv rest)
  obtain k0 v0 where kv: "kv = (k0, v0)" by (cases kv)
  from Cons.prems(1) kv have fresh: "map_of rest k0 = None" and d: "distinct (map fst rest)"
    by (auto simp: map_of_eq_None_iff)
  show ?case
  proof (cases "HasPrefix k0 ''grpc-''")
    case True
    with Cons.prems(2) kv have "split_loop rest (n, assign t k0 v0) = (n', t')" by simp
    from Cons.IH [OF d this] True kv fresh show ?thesis
      by (auto simp: map_of_assign split: option.splits)
  next
    case False
    with Cons.prems(2) kv have "split_loop rest (assign n k0 v0, t) = (n', t')" by simp
    from Cons.IH [OF d this] False kv show ?thesis by auto
  qed
qed

text \<open>
  Claim C2. For every header map (its entries in any order of visit),
  \<open>splitGrpcTrailerHeaders\<close> returns two maps such that a key with the prefix
  \<^verbatim>\<open>grpc-\<close> is in the trailer map with its value and not in the normal map, every
  other key is in the normal map with its value and not in the trailer map, and
  the two maps are disjoint with the input as their union.
\<close>

theorem splitGrpcTrailerHeaders_partition:
  assumes wf: "wf_map headers"
      and split: "splitGrpcTrailerHeaders headers = (normal, trailer)"
  shows "(\<forall>k. HasPrefix k ''grpc-'' \<longrightarrow>
            map_of trailer k = map_of headers k \<and> map_of normal k = None)
       \<and> (\<forall>k. \<not> HasPrefix k ''grpc-'' \<longrightarrow>
            map_of normal k = map_of headers k \<and> map_of trailer k = None)
       \<and> dom (map_of normal) \<inter> dom (map_of trailer) = {}
       \<and> map_of normal ++ map_of trailer = map_of headers
       \<and> dom (map_of normal) \<union> dom (map_of trailer) = dom (map_of headers)
       \<and> wf_map normal \<and> wf_map trailer"
proof -
  from wf have d: "distinct (map fst headers)" by (simp add: wf_map_def)
  from split have loop: "split_loop headers ([], []) = (normal, trailer)"
    by (simp add: splitGrpcTrailerHeaders_def make_map_def)
  have n: "map_of normal k = (if HasPrefix k ''grpc-'' then None else map_of headers k)" for k
    using split_loop_normal [OF d loop, of k] by (simp split: option.splits)
  have t: "map_of trailer k = (if HasPrefix k ''grpc-'' then map_of headers k else None)" for k
    using split_loop_trailer [OF d loop, of k] by (simp split: option.splits)
  have disj: "dom (map_of normal) \<inter> dom (map_of trailer) = {}"
    by (auto simp: n t dom_def split: if_splits)
  have un: "map_of normal ++ map_of trailer = map_of headers"
    by (rule ext) (simp add: map_add_def n t split: option.splits)
  have du: "dom (map_of normal) \<union> dom (map_of trailer) = dom (map_of headers)"
    using un by (metis dom_map_add sup_commute)
  have w: "wf_map normal \<and> wf_map trailer"
    using split_loop_wf [OF loop] by (simp add: wf_map_def)
  from n t disj un du w show ?thesis by simp
qed

theorem splitGrpcTrailerHeaders_partition_witness:
  "wf_map [(''grpc-status'', ''0''), (''content-type'', ''application/grpc''), (''grpc-message'', ''ok'')]
   \<and> splitGrpcTrailerHeaders
       [(''grpc-status'', ''0''), (''content-type'', ''application/grpc''), (''grpc-message'', ''ok'')]
     = ([(''content-type'', ''application/grpc'')], [(''grpc-status'', ''0''), (''grpc-message'', ''ok'')])
   \<and> map_of [(''content-type'', ''application/grpc'')]
        ++ map_of [(''grpc-status'', ''0''), (''grpc-message'', ''ok'')]
      = map_of [(''grpc-status'', ''0''), (''content-type'', ''application/grpc''), (''grpc-message'', ''ok'')]"
proof -
  have w: "wf_map [(''grpc-status'', ''0''), (''content-type'', ''application/grpc''), (''grpc-message'', ''ok'')]"
    by (simp add: wf_map_def)
  have s: "splitGrpcTrailerHeaders
       [(''grpc-status'', ''0''), (''content-type'', ''application/grpc''), (''grpc-message'', ''ok'')]
     = ([(''content-type'', ''application/grpc'')], [(''grpc-status'', ''0''), (''grpc-message'', ''ok'')])"
    by (simp add: splitGrpcTrailerHeaders_def make_map_def assign_def HasPrefix_def)
  from splitGrpcTrailerHeaders_partition [OF w s] w s show ?thesis by blast
qed

section \<open>The header codec\<close>

lemma extract_loop_wf:
  "extract_loop hf (p, ord) = (p', ord') \<Longrightarrow> wf_map p \<Longrightarrow> wf_map ord \<Longrightarrow> wf_map p' \<and> wf_map ord'"
  by (induction hf arbitrary: p ord) (auto split: if_splits simp: wf_map_assign)

lemma IsPseudo_Name: "Name h = Name h' \<Longrightarrow> IsPseudo h = IsPseudo h'"
  by (simp add: IsPseudo_def)

lemma extract_loop_pseudo:
  "extract_loop hf (p, ord) = (p', ord') \<Longrightarrow>
   map_of p' n =
     (case filter (\<lambda>h. Name h = n \<and> IsPseudo h) hf of
        [] \<Rightarrow> map_of p n
      | h # hs \<Rightarrow> Some (Value (last (h # hs))))"
proof (induction hf arbitrary: p ord)
  case Nil
  then show ?case by simp
next
  case (Cons h rest)
  show ?case
  proof (cases "IsPseudo h")
    case True
    with Cons.prems have "extract_loop rest (assign p (Name h) (Value h), ord) = (p', ord')"
      by simp
    from Cons.IH [OF this] True show ?thesis
      by (auto simp: map_of_assign split: list.splits)
  next
    case False
    with Cons.prems have "extract_loop rest (p, assign ord (Name h) (Value h)) = (p', ord')"
      by simp
    from Cons.IH [OF this] False show ?thesis
      by (auto split: list.splits)
  qed
qed

lemma extract_loop_ordinary:
  "extract_loop hf (p, ord) = (p', ord') \<Longrightarrow>
   map_of ord' n =
     (case filter (\<lambda>h. Name h = n \<and> \<not> IsPseudo h) hf of
        [] \<Rightarrow> map_of ord n
      | h # hs \<Rightarrow> Some (Value (last (h # hs))))"
proof (induction hf arbitrary: p ord)
  case Nil
  then show ?case by simp
next
  case (Cons h rest)
  show ?case
  proof (cases "IsPseudo h")
    case True
    with Cons.prems have "extract_loop rest (assign p (Name h) (Value h), ord) = (p', ord')"
      by simp
    from Cons.IH [OF this] True show ?thesis
      by (auto split: list.splits)
  next
    case False
    with Cons.prems have "extract_loop rest (p, assign ord (Name h) (Value h)) = (p', ord')"
      by simp
    from Cons.IH [OF this] False show ?thesis
      by (auto simp: map_of_assign split: list.splits)
  qed
qed

text \<open>Fields of one name are all pseudo or all ordinary, as the last of them is.\<close>

lemma filter_pseudo_all:
  assumes "filter (\<lambda>h. Name h = n) hf = occ" "occ \<noteq> []" "IsPseudo (last occ)"
  shows "filter (\<lambda>h. Name h = n \<and> IsPseudo h) hf = occ"
    and "filter (\<lambda>h. Name h = n \<and> \<not> IsPseudo h) hf = []"
proof -
  have l: "last occ \<in> set occ" using assms(2) by simp
  then have nl: "Name (last occ) = n" using assms(1) by auto
  have "\<forall>h \<in> set hf. Name h = n \<longrightarrow> IsPseudo h"
    using IsPseudo_Name nl assms(3) by metis
  then show "filter (\<lambda>h. Name h = n \<and> IsPseudo h) hf = occ"
    and "filter (\<lambda>h. Name h = n \<and> \<not> IsPseudo h) hf = []"
    using assms(1) by (auto simp: filter_empty_conv intro: filter_cong)
qed

lemma filter_ordinary_all:
  assumes "filter (\<lambda>h. Name h = n) hf = occ" "occ \<noteq> []" "\<not> IsPseudo (last occ)"
  shows "filter (\<lambda>h. Name h = n \<and> \<not> IsPseudo h) hf = occ"
    and "filter (\<lambda>h. Name h = n \<and> IsPseudo h) hf = []"
proof -
  have l: "last occ \<in> set occ" using assms(2) by simp
  then have nl: "Name (last occ) = n" using assms(1) by auto
  have "\<forall>h \<in> set hf. Name h = n \<longrightarrow> \<not> IsPseudo h"
    using IsPseudo_Name nl assms(3) by metis
  then show "filter (\<lambda>h. Name h = n \<and> \<not> IsPseudo h) hf = occ"
    and "filter (\<lambda>h. Name h = n \<and> IsPseudo h) hf = []"
    using assms(1) by (auto simp: filter_empty_conv intro: filter_cong)
qed

text \<open>
  Claim C6. When the decoder decodes the fragment into the fields \<open>hf\<close>,
  \<open>extractHeaders\<close> returns two maps and no error: a name that no field has is in
  neither map; any other name is in the pseudo map if it is a pseudo header name
  and in the ordinary map if not, in that map only, and its value there is the
  value of the last field of that name in decoding order. When the decoder
  fails, \<open>extractHeaders\<close> returns an error built from the decoder's and no maps.
\<close>

theorem extractHeaders_partition:
  "(DecodeFull d fragment = (Inr hf, d') \<longrightarrow>
      (\<exists>pseudoHeaders ordinaryHeaders.
         extractHeaders DecodeFull fragment d = (Inr (pseudoHeaders, ordinaryHeaders), d')
       \<and> wf_map pseudoHeaders \<and> wf_map ordinaryHeaders
       \<and> (\<forall>n. case filter (\<lambda>h. Name h = n) hf of
                 [] \<Rightarrow> map_of pseudoHeaders n = None \<and> map_of ordinaryHeaders n = None
               | h # hs \<Rightarrow>
                   if IsPseudo (last (h # hs))
                   then map_of pseudoHeaders n = Some (Value (last (h # hs)))
                      \<and> map_of ordinaryHeaders n = None
                   else map_of ordinaryHeaders n = Some (Value (last (h # hs)))
                      \<and> map_of pseudoHeaders n = None)))
 \<and> (DecodeFull d fragment = (Inl err, d') \<longrightarrow>
      extractHeaders DecodeFull fragment d
        = (Inl (fmt_Errorf (''could not decode headers: '' @ Error err)), d'))"
proof (intro conjI impI)
  assume dec: "DecodeFull d fragment = (Inr hf, d')"
  obtain p ord where loop: "extract_loop hf ([], []) = (p, ord)"
    by (cases "extract_loop hf ([], [])")
  have res: "extractHeaders DecodeFull fragment d = (Inr (p, ord), d')"
    using dec loop by (simp add: extractHeaders_def make_map_def)
  have wf: "wf_map p \<and> wf_map ord"
    using extract_loop_wf [OF loop] by (simp add: wf_map_def)
  have look: "case filter (\<lambda>h. Name h = n) hf of
                 [] \<Rightarrow> map_of p n = None \<and> map_of ord n = None
               | h # hs \<Rightarrow>
                   if IsPseudo (last (h # hs))
                   then map_of p n = Some (Value (last (h # hs))) \<and> map_of ord n = None
                   else map_of ord n = Some (Value (last (h # hs))) \<and> map_of p n = None" for n
  proof (cases "filter (\<lambda>h. Name h = n) hf")
    case Nil
    then have "filter (\<lambda>h. Name h = n \<and> IsPseudo h) hf = []"
      and "filter (\<lambda>h. Name h = n \<and> \<not> IsPseudo h) hf = []"
      by (auto simp: filter_empty_conv)
    with extract_loop_pseudo [OF loop, of n] extract_loop_ordinary [OF loop, of n] Nil
    show ?thesis by simp
  next
    case (Cons h hs)
    show ?thesis
    proof (cases "IsPseudo (last (h # hs))")
      case True
      from filter_pseudo_all [OF Cons _ True]
      have "filter (\<lambda>h. Name h = n \<and> IsPseudo h) hf = h # hs"
        and "filter (\<lambda>h. Name h = n \<and> \<not> IsPseudo h) hf = []" by simp_all
      with extract_loop_pseudo [OF loop, of n] extract_loop_ordinary [OF loop, of n] Cons True
      show ?thesis by simp
    next
      case False
      from filter_ordinary_all [OF Cons _ False]
      have "filter (\<lambda>h. Name h = n \<and> \<not> IsPseudo h) hf = h # hs"
        and "filter (\<lambda>h. Name h = n \<and> IsPseudo h) hf = []" by simp_all
      with extract_loop_pseudo [OF loop, of n] extract_loop_ordinary [OF loop, of n] Cons False
      show ?thesis by simp
    qed
  qed
  from res wf look
  show "\<exists>pseudoHeaders ordinaryHeaders.
         extractHeaders DecodeFull fragment d = (Inr (pseudoHeaders, ordinaryHeaders), d')
       \<and> wf_map pseudoHeaders \<and> wf_map ordinaryHeaders
       \<and> (\<forall>n. case filter (\<lambda>h. Name h = n) hf of
                 [] \<Rightarrow> map_of pseudoHeaders n = None \<and> map_of ordinaryHeaders n = None
               | h # hs \<Rightarrow>
                   if IsPseudo (last (h # hs))
                   then map_of pseudoHeaders n = Some (Value (last (h # hs)))
                      \<and> map_of ordinaryHeaders n = None
                   else map_of ordinaryHeaders n = Some (Value (last (h # hs)))
                      \<and> map_of pseudoHeaders n = None)"
    by blast
next
  assume "DecodeFull d fragment = (Inl err, d')"
  then show "extractHeaders DecodeFull fragment d
        = (Inl (fmt_Errorf (''could not decode headers: '' @ Error err)), d')"
    by (simp add: extractHeaders_def)
qed

theorem extractHeaders_partition_witness:
  "table_decoder [([1],
       [\<lparr>Name = '':status'', Value = ''200'', Sensitive = False\<rparr>,
        \<lparr>Name = ''x-id'', Value = ''a'', Sensitive = False\<rparr>,
        \<lparr>Name = ''x-id'', Value = ''b'', Sensitive = False\<rparr>])] 0 [1]
     = (Inr [\<lparr>Name = '':status'', Value = ''200'', Sensitive = False\<rparr>,
        \<lparr>Name = ''x-id'', Value = ''a'', Sensitive = False\<rparr>,
        \<lparr>Name = ''x-id'', Value = ''b'', Sensitive = False\<rparr>], 1)
   \<and> (\<exists>pseudoHeaders ordinaryHeaders.
        extractHeaders (table_decoder [([1],
          [\<lparr>Name = '':status'', Value = ''200'', Sensitive = False\<rparr>,
           \<lparr>Name = ''x-id'', Value = ''a'', Sensitive = False\<rparr>,
           \<lparr>Name = ''x-id'', Value = ''b'', Sensitive = False\<rparr>])]) [1] 0
          = (Inr (pseudoHeaders, ordinaryHeaders), 1)
      \<and> map_of ordinaryHeaders ''x-id'' = Some ''b''
      \<and> map_of pseudoHeaders ''x-id'' = None
      \<and> map_of pseudoHeaders '':status'' = Some ''200''
      \<and> map_of ordinaryHeaders '':status'' = None)
   \<and> table_decoder [] 0 [] = (Inl (lib_error ''decoding error: truncated headers''), 0)
   \<and> extractHeaders (table_decoder []) [] 0
     = (Inl (fmt_Errorf ''could not decode headers: decoding error: truncated headers''), 0)"
proof -
  let ?hf = "[\<lparr>Name = '':status'', Value = ''200'', Sensitive = False\<rparr>,
        \<lparr>Name = ''x-id'', Value = ''a'', Sensitive = False\<rparr>,
        \<lparr>Name = ''x-id'', Value = ''b'', Sensitive = False\<rparr>]"
  let ?D = "table_decoder [([1], ?hf)]"
  have ok: "?D 0 [1] = (Inr ?hf, 1)"
    by (simp add: table_decoder_def)
  have bad: "table_decoder [] 0 [] = (Inl (lib_error ''decoding error: truncated headers''), 0)"
    by (simp add: table_decoder_def)
  from extractHeaders_partition [of ?D 0 "[1]" ?hf 1] ok
  obtain p ord where r: "extractHeaders ?D [1] 0 = (Inr (p, ord), 1)"
    and look: "\<And>n. case filter (\<lambda>h. Name h = n) ?hf of
                 [] \<Rightarrow> map_of p n = None \<and> map_of ord n = None
               | h # hs \<Rightarrow>
                   if IsPseudo (last (h # hs))
                   then map_of p n = Some (Value (last (h # hs))) \<and> map_of ord n = None
                   else map_of ord n = Some (Value (last (h # hs))) \<and> map_of p n = None"
    by blast
  from look [of "''x-id''"]
  have x: "map_of ord ''x-id'' = Some ''b'' \<and> map_of p ''x-id'' = None"
    by (simp add: IsPseudo_def)
  from look [of "'':status''"]
  have st: "map_of p '':status'' = Some ''200'' \<and> map_of ord '':status'' = None"
    by (simp add: IsPseudo_def)
  from extractHeaders_partition [of "table_decoder []" 0 "[]" _ 0
      "lib_error ''decoding error: truncated headers''"] bad
  have "extractHeaders (table_decoder []) [] 0
     = (Inl (fmt_Errorf ''could not decode headers: decoding error: truncated headers''), 0)"
    by simp
  with ok bad r x st show ?thesis by blast
qed

section \<open>The loop\<close>

lemma transferFrame_append:
  "transferFrame D req pre s = (None, s1) \<Longrightarrow>
   transferFrame D req (pre @ es) s = transferFrame D req es s1"
  by (induction pre arbitrary: s) (auto split: prod.splits option.splits)

lemma wrapped_differs: "fmt_Errorf (msg @ Error err) \<noteq> err \<or> msg = []"
  by (cases err) auto

text \<open>
  Claim C4. When the read of the next frame fails, after any number of iterations
  that went round the loop, \<open>transferFrame\<close> returns at once: \<^verbatim>\<open>io.EOF\<close> itself when
  that is the error of the read, and otherwise a new error whose message is
  \<^verbatim>\<open>error reading frame\<close> followed by the message of the read error, which is
  neither \<^verbatim>\<open>io.EOF\<close> nor the read error. The state is the one the iteration began
  in, so nothing is written to the destination and the store gets no call, and
  the inputs of later iterations are not looked at.
\<close>

theorem transferFrame_read_error:
  assumes "transferFrame D req pre s = (None, s1)"
      and "ctx_Err e = None"
      and "ReadFrame e = Inl err"
  shows "(err = io_EOF \<longrightarrow>
            transferFrame D req (pre @ e # es) s = (Some io_EOF, s1))
       \<and> (err \<noteq> io_EOF \<longrightarrow>
            transferFrame D req (pre @ e # es) s
              = (Some (fmt_Errorf (''error reading frame '' @ Error err)), s1)
          \<and> fmt_Errorf (''error reading frame '' @ Error err) \<noteq> io_EOF
          \<and> fmt_Errorf (''error reading frame '' @ Error err) \<noteq> err)"
proof -
  have step: "iteration D req e s1 =
      (if err = io_EOF then (Some io_EOF, s1)
       else (Some (fmt_Errorf (''error reading frame '' @ Error err)), s1))"
    using assms(2,3) by (simp add: iteration_def)
  have "fmt_Errorf (''error reading frame '' @ Error err) \<noteq> err"
    using wrapped_differs [of "''error reading frame ''" err] by simp
  with step transferFrame_append [OF assms(1), of "e # es"] show ?thesis
    by simp
qed

theorem transferFrame_read_error_witness:
  "transferFrame (table_decoder []) True
     [\<lparr>ctx_Err = None, ReadFrame = Inr (PingFrame \<lparr>Type = 6, Flags = 0, Length = 8, StreamID = 0\<rparr> [0,0,0,0,0,0,0,1]),
        write_err = None, Now = 1\<rparr>,
      \<lparr>ctx_Err = None, ReadFrame = Inl io_EOF, write_err = None, Now = 2\<rparr>] relay0
     = (Some io_EOF, relay0\<lparr>lhs := [WritePing False [0,0,0,0,0,0,0,1]]\<rparr>)
   \<and> transferFrame (table_decoder []) False
     [\<lparr>ctx_Err = None, ReadFrame = Inl (lib_error ''connection reset by peer''), write_err = None, Now = 1\<rparr>,
      \<lparr>ctx_Err = None, ReadFrame = Inr (UnknownFrame \<lparr>Type = 20, Flags = 0, Length = 0, StreamID = 0\<rparr> []),
        write_err = None, Now = 2\<rparr>] relay0
     = (Some (fmt_Errorf ''error reading frame connection reset by peer''), relay0)"
proof -
  let ?ping = "\<lparr>ctx_Err = None, ReadFrame = Inr (PingFrame \<lparr>Type = 6, Flags = 0, Length = 8, StreamID = 0\<rparr> [0,0,0,0,0,0,0,1]),
        write_err = None, Now = 1\<rparr>"
  have pre: "transferFrame (table_decoder []) True [?ping] relay0
      = (None, relay0\<lparr>lhs := [WritePing False [0,0,0,0,0,0,0,1]]\<rparr>)"
    by (simp add: iteration_def forward_def framer_write_def relay0_def IsAck_def Has_def FlagAck_def)
  have nil: "transferFrame (table_decoder []) False [] relay0 = (None, relay0)"
    by simp
  from transferFrame_read_error [OF pre, of "\<lparr>ctx_Err = None, ReadFrame = Inl io_EOF, write_err = None, Now = 2\<rparr>" io_EOF "[]"]
    transferFrame_read_error [OF nil,
      of "\<lparr>ctx_Err = None, ReadFrame = Inl (lib_error ''connection reset by peer''), write_err = None, Now = 1\<rparr>"
         "lib_error ''connection reset by peer''"
         "[\<lparr>ctx_Err = None, ReadFrame = Inr (UnknownFrame \<lparr>Type = 20, Flags = 0, Length = 0, StreamID = 0\<rparr> []),
        write_err = None, Now = 2\<rparr>]"]
  show ?thesis by simp
qed

lemma forward_error: "fst (forward w msg e s) \<noteq> Some (context_error c) \<and> fst (forward w msg e s) \<noteq> Some io_EOF"
  by (simp add: forward_def split: option.splits)

lemma dispatch_error:
  "fst (dispatch D req e frame s) \<noteq> Some (context_error c)"
  by (cases frame)
     (auto simp: forward_error Let_def split: option.splits prod.splits sum.splits)

text \<open>
  Claim C8. When the context is done at the head of an iteration, after any
  number of iterations that went round the loop, \<open>transferFrame\<close> returns the
  value of \<^verbatim>\<open>ctx.Err()\<close> in the state the iteration began in: no frame is read or
  forwarded. An iteration that finds the context open never returns that value,
  whatever its read, write or decoding does.
\<close>

theorem transferFrame_cancelled:
  assumes "transferFrame D req pre s = (None, s1)"
      and "ctx_Err e = Some c"
  shows "transferFrame D req (pre @ e # es) s = (Some (context_error c), s1)
       \<and> (\<forall>e' s'. ctx_Err e' = None \<longrightarrow>
             fst (iteration D req e' s') \<noteq> Some (context_error c))"
proof -
  have "iteration D req e s1 = (Some (context_error c), s1)"
    using assms(2) by (simp add: iteration_def)
  with transferFrame_append [OF assms(1), of "e # es"]
  have ret: "transferFrame D req (pre @ e # es) s = (Some (context_error c), s1)"
    by simp
  have "fst (iteration D req e' s') \<noteq> Some (context_error c)" if "ctx_Err e' = None" for e' s'
    using that dispatch_error [of D req e'] 
    by (auto simp: iteration_def split: sum.splits)
  with ret show ?thesis by blast
qed

theorem transferFrame_cancelled_witness:
  "transferFrame (table_decoder []) True
     [\<lparr>ctx_Err = None, ReadFrame = Inr (PingFrame \<lparr>Type = 6, Flags = 0, Length = 8, StreamID = 0\<rparr> [0,0,0,0,0,0,0,1]),
        write_err = None, Now = 1\<rparr>,
      \<lparr>ctx_Err = Some Canceled,
        ReadFrame = Inr (PingFrame \<lparr>Type = 6, Flags = 0, Length = 8, StreamID = 0\<rparr> [0,0,0,0,0,0,0,2]),
        write_err = None, Now = 2\<rparr>] relay0
     = (Some (context_error Canceled), relay0\<lparr>lhs := [WritePing False [0,0,0,0,0,0,0,1]]\<rparr>)
   \<and> fst (iteration (table_decoder []) True
        \<lparr>ctx_Err = None, ReadFrame = Inl (lib_error ''context canceled''), write_err = None, Now = 3\<rparr> relay0)
      \<noteq> Some (context_error Canceled)"
proof -
  let ?ping = "\<lparr>ctx_Err = None, ReadFrame = Inr (PingFrame \<lparr>Type = 6, Flags = 0, Length = 8, StreamID = 0\<rparr> [0,0,0,0,0,0,0,1]),
        write_err = None, Now = 1\<rparr>"
  have pre: "transferFrame (table_decoder []) True [?ping] relay0
      = (None, relay0\<lparr>lhs := [WritePing False [0,0,0,0,0,0,0,1]]\<rparr>)"
    by (simp add: iteration_def forward_def framer_write_def relay0_def IsAck_def Has_def FlagAck_def)
  from transferFrame_cancelled [OF pre, of "\<lparr>ctx_Err = Some Canceled,
        ReadFrame = Inr (PingFrame \<lparr>Type = 6, Flags = 0, Length = 8, StreamID = 0\<rparr> [0,0,0,0,0,0,0,2]),
        write_err = None, Now = 2\<rparr>" Canceled "[]"]
  show ?thesis by simp
qed

text \<open>
  Claim C9. A frame of a type with no case in the \<^verbatim>\<open>switch\<close> is read and dropped:
  the iteration leaves the state as it is (no write on the destination, no call
  on the store, no timestamp), returns no error, and the loop goes on with the
  next iteration.
\<close>

theorem transferFrame_unknown_frame:
  assumes "ctx_Err e = None"
      and "ReadFrame e = Inr (UnknownFrame fh payload)"
  shows "iteration D req e s = (None, s)
       \<and> transferFrame D req (e # es) s = transferFrame D req es s"
  using assms by (simp add: iteration_def)

theorem transferFrame_unknown_frame_witness:
  "iteration (table_decoder []) True
     \<lparr>ctx_Err = None, ReadFrame = Inr (UnknownFrame \<lparr>Type = 20, Flags = 0, Length = 3, StreamID = 1\<rparr> [1,2,3]),
       write_err = None, Now = 2\<rparr> relay0 = (None, relay0)"
  using transferFrame_unknown_frame [of "\<lparr>ctx_Err = None,
       ReadFrame = Inr (UnknownFrame \<lparr>Type = 20, Flags = 0, Length = 3, StreamID = 1\<rparr> [1,2,3]),
       write_err = None, Now = 2\<rparr>" "\<lparr>Type = 20, Flags = 0, Length = 3, StreamID = 1\<rparr>" "[1,2,3]"
       "table_decoder []" True relay0 "[]"]
  by simp

lemma ForeachSetting_collect:
  "ForeachSetting settings (\<lambda>setting settingsCollection. (None, settingsCollection @ [setting])) acc
     = (None, acc @ settings)"
  by (induction settings arbitrary: acc) auto

text \<open>
  Claim C7. On a Settings frame the iteration makes exactly one write on the
  destination: a settings acknowledgment when the frame is one, and otherwise a
  Settings frame with the settings of the frame read, in their order and with
  their values. The store and the decoder are left alone, and the iteration
  returns an error exactly when that write does.
\<close>

theorem transferFrame_settings:
  assumes "ctx_Err e = None"
      and "ReadFrame e = Inr (SettingsFrame fh settings)"
      and "iteration D req e s = (r, s')"
  shows "lhs s' = lhs s @ [if IsAck fh then WriteSettingsAck else WriteSettings settings]
       \<and> sic s' = sic s \<and> decoder s' = decoder s
       \<and> r = (case write_err e of
                None \<Rightarrow> None
              | Some err \<Rightarrow>
                  Some (fmt_Errorf ((if IsAck fh then ''could not write ack for settings frame: ''
                                     else ''could not write settings fraame: '') @ Error err)))"
  using assms
  by (auto simp: iteration_def ForeachSetting_collect forward_def framer_write_def
           split: option.splits)

theorem transferFrame_settings_witness:
  "iteration (table_decoder []) True
     \<lparr>ctx_Err = None,
       ReadFrame = Inr (SettingsFrame \<lparr>Type = 4, Flags = 0, Length = 12, StreamID = 0\<rparr>
                         [\<lparr>ID = 3, Val = 100\<rparr>, \<lparr>ID = 4, Val = 65535\<rparr>]),
       write_err = None, Now = 2\<rparr> relay0
     = (None, relay0\<lparr>lhs := [WriteSettings [\<lparr>ID = 3, Val = 100\<rparr>, \<lparr>ID = 4, Val = 65535\<rparr>]]\<rparr>)
   \<and> lhs (snd (iteration (table_decoder []) False
     \<lparr>ctx_Err = None,
       ReadFrame = Inr (SettingsFrame \<lparr>Type = 4, Flags = 1, Length = 0, StreamID = 0\<rparr> []),
       write_err = None, Now = 3\<rparr> relay0)) = [WriteSettingsAck]"
proof -
  let ?e1 = "\<lparr>ctx_Err = None,
       ReadFrame = Inr (SettingsFrame \<lparr>Type = 4, Flags = 0, Length = 12, StreamID = 0\<rparr>
                         [\<lparr>ID = 3, Val = 100\<rparr>, \<lparr>ID = 4, Val = 65535\<rparr>]),
       write_err = None, Now = 2\<rparr>"
  let ?e2 = "\<lparr>ctx_Err = None,
       ReadFrame = Inr (SettingsFrame \<lparr>Type = 4, Flags = 1, Length = 0, StreamID = 0\<rparr> []),
       write_err = None, Now = 3\<rparr>"
  obtain r1 s1 where i1: "iteration (table_decoder []) True ?e1 relay0 = (r1, s1)"
    by (cases "iteration (table_decoder []) True ?e1 relay0")
  obtain r2 s2 where i2: "iteration (table_decoder []) False ?e2 relay0 = (r2, s2)"
    by (cases "iteration (table_decoder []) False ?e2 relay0")
  from transferFrame_settings [OF _ _ i1] transferFrame_settings [OF _ _ i2] i1 i2
  show ?thesis
    by (simp add: relay0_def IsAck_def Has_def FlagAck_def)
qed

section \<open>Calls on the stream store\<close>

lemma new_calls_eq: "calls (sic s') = calls (sic s) @ new \<Longrightarrow> new_calls s s' = new"
  by (simp add: new_calls_def)

lemma forward_sic: "forward w msg e s = (r, s') \<Longrightarrow> sic s' = sic s"
  by (auto simp: forward_def framer_write_def split: option.splits)

lemma iteration_headers_calls:
  assumes "headers_processed D e s = Some fh"
      and "iteration D req e s = (r, s')"
  shows "\<exists>p ord pn pt ordn ordt.
           new_calls s s' =
            (if req then
               [AddHeadersForRequest (StreamID fh) p True,
                AddHeadersForRequest (StreamID fh) ord False]
             else if StreamEnded fh then
               [AddHeadersForResponse (StreamID fh) pn True False,
                AddHeadersForResponse (StreamID fh) ordn False False,
                AddHeadersForResponse (StreamID fh) pt True True,
                AddHeadersForResponse (StreamID fh) ordt False True,
                PersistMockForStream (StreamID fh),
                ResetStream (StreamID fh)]
             else
               [AddHeadersForResponse (StreamID fh) p True False,
                AddHeadersForResponse (StreamID fh) ord False False])"
proof -
  from assms(1) obtain priority fragment where
    c: "ctx_Err e = None" and f: "ReadFrame e = Inr (HeadersFrame fh priority fragment)"
    and w: "write_err e = None"
    and x: "\<exists>maps. fst (extractHeaders D fragment (decoder s)) = Inr maps"
    by (auto simp: headers_processed_def split: option.splits sum.splits Frame.splits)
  from x obtain p ord d' where x': "extractHeaders D fragment (decoder s) = (Inr (p, ord), d')"
    by (cases "extractHeaders D fragment (decoder s)") auto
  obtain pn pt where sp: "splitGrpcTrailerHeaders p = (pn, pt)"
    by (cases "splitGrpcTrailerHeaders p")
  obtain ordn ordt where so: "splitGrpcTrailerHeaders ord = (ordn, ordt)"
    by (cases "splitGrpcTrailerHeaders ord")
  from assms(2) c f w x' sp so
  have "calls (sic s') = calls (sic s) @
            (if req then
               [AddHeadersForRequest (StreamID fh) p True,
                AddHeadersForRequest (StreamID fh) ord False]
             else if StreamEnded fh then
               [AddHeadersForResponse (StreamID fh) pn True False,
                AddHeadersForResponse (StreamID fh) ordn False False,
                AddHeadersForResponse (StreamID fh) pt True True,
                AddHeadersForResponse (StreamID fh) ordt False True,
                PersistMockForStream (StreamID fh),
                ResetStream (StreamID fh)]
             else
               [AddHeadersForResponse (StreamID fh) p True False,
                AddHeadersForResponse (StreamID fh) ord False False])"
    by (auto simp: iteration_def Let_def invoke_def framer_write_def)
  from new_calls_eq [OF this] show ?thesis by blast
qed

lemma iteration_other_calls:
  assumes "headers_processed D e s = None"
      and "iteration D req e s = (r, s')"
  shows "\<exists>new. calls (sic s') = calls (sic s) @ new
           \<and> (\<forall>c \<in> set new. \<exists>sid data. c = AddPayloadForRequest sid data
                                      \<or> c = AddPayloadForResponse sid data)"
proof (cases "ctx_Err e")
  case (Some c)
  with assms(2) show ?thesis by (auto simp: iteration_def)
next
  case None
  show ?thesis
  proof (cases "ReadFrame e")
    case (Inl err)
    with None assms(2) show ?thesis by (auto simp: iteration_def split: if_splits)
  next
    case (Inr frame)
    with None assms(2) have d: "dispatch D req e frame s = (r, s')"
      by (simp add: iteration_def)
    show ?thesis
    proof (cases frame)
      case (HeadersFrame fh priority fragment)
      with assms(1) None Inr have
        "write_err e \<noteq> None \<or> (\<exists>err. fst (extractHeaders D fragment (decoder s)) = Inl err)"
        by (auto simp: headers_processed_def split: option.splits sum.splits)
      with d HeadersFrame show ?thesis
        by (auto simp: Let_def framer_write_def split: option.splits sum.splits prod.splits)
    next
      case (DataFrame fh data)
      with d show ?thesis
        by (auto simp: Let_def framer_write_def invoke_def split: option.splits if_splits)
    next
      case (SettingsFrame fh settings)
      with d show ?thesis
        by (auto dest!: forward_sic split: if_splits prod.splits option.splits)
    qed (use d in \<open>auto dest!: forward_sic\<close>)
  qed
qed

text \<open>
  Claim C1. In one iteration of \<open>transferFrame\<close>, \<^verbatim>\<open>PersistMockForStream\<close> is called
  for a stream identifier exactly when the iteration has processed a Headers
  frame of that stream (read, forwarded and decoded it), the direction is
  server to client and the frame has the end-of-stream flag; the same holds of
  \<^verbatim>\<open>ResetStream\<close>. In that case the two calls are the last two of the iteration,
  \<^verbatim>\<open>PersistMockForStream\<close> first and \<^verbatim>\<open>ResetStream\<close> right after it, behind calls of
  \<^verbatim>\<open>AddHeadersForResponse\<close> only. No other frame type, direction or path of the
  iteration makes either call.
\<close>

theorem PersistMock_sole_trigger:
  assumes "iteration D req e s = (r, s')"
  shows "calls (sic s') = calls (sic s) @ new_calls s s'
       \<and> (\<forall>sid. (PersistMockForStream sid \<in> set (new_calls s s')) =
             (\<exists>fh. headers_processed D e s = Some fh \<and> \<not> req \<and> StreamEnded fh
                    \<and> StreamID fh = sid))
       \<and> (\<forall>sid. (ResetStream sid \<in> set (new_calls s s')) =
             (\<exists>fh. headers_processed D e s = Some fh \<and> \<not> req \<and> StreamEnded fh
                    \<and> StreamID fh = sid))
       \<and> (\<forall>fh. headers_processed D e s = Some fh \<and> \<not> req \<and> StreamEnded fh \<longrightarrow>
             (\<exists>adds. new_calls s s'
                        = adds @ [PersistMockForStream (StreamID fh), ResetStream (StreamID fh)]
                  \<and> (\<forall>c \<in> set adds. \<exists>m isPseudo isTrailer.
                         c = AddHeadersForResponse (StreamID fh) m isPseudo isTrailer)))"
proof (cases "headers_processed D e s")
  case None
  from iteration_other_calls [OF None assms] obtain new where
    n: "calls (sic s') = calls (sic s) @ new"
    and o: "\<forall>c \<in> set new. \<exists>sid data. c = AddPayloadForRequest sid data
                                      \<or> c = AddPayloadForResponse sid data"
    by blast
  from new_calls_eq [OF n] have nc: "new_calls s s' = new" .
  from o have "PersistMockForStream sid \<notin> set new" and "ResetStream sid \<notin> set new" for sid
    by auto
  with None n nc show ?thesis by simp
next
  case (Some fh)
  from iteration_headers_calls [OF Some assms] obtain p ord pn pt ordn ordt where
    nc: "new_calls s s' =
            (if req then
               [AddHeadersForRequest (StreamID fh) p True,
                AddHeadersForRequest (StreamID fh) ord False]
             else if StreamEnded fh then
               [AddHeadersForResponse (StreamID fh) pn True False,
                AddHeadersForResponse (StreamID fh) ordn False False,
                AddHeadersForResponse (StreamID fh) pt True True,
                AddHeadersForResponse (StreamID fh) ordt False True,
                PersistMockForStream (StreamID fh),
                ResetStream (StreamID fh)]
             else
               [AddHeadersForResponse (StreamID fh) p True False,
                AddHeadersForResponse (StreamID fh) ord False False])"
    by blast
  have pre: "calls (sic s') = calls (sic s) @ new_calls s s'"
  proof -
    from Some assms have "\<exists>new. calls (sic s') = calls (sic s) @ new"
      by (auto simp: headers_processed_def iteration_def Let_def invoke_def framer_write_def
               split: option.splits sum.splits Frame.splits prod.splits if_splits)
    then show ?thesis by (auto simp: new_calls_def)
  qed
  have last: "\<exists>adds. new_calls s s'
                        = adds @ [PersistMockForStream (StreamID fh), ResetStream (StreamID fh)]
                  \<and> (\<forall>c \<in> set adds. \<exists>m isPseudo isTrailer.
                         c = AddHeadersForResponse (StreamID fh) m isPseudo isTrailer)"
    if "\<not> req" "StreamEnded fh"
  proof -
    let ?adds = "[AddHeadersForResponse (StreamID fh) pn True False,
                AddHeadersForResponse (StreamID fh) ordn False False,
                AddHeadersForResponse (StreamID fh) pt True True,
                AddHeadersForResponse (StreamID fh) ordt False True]"
    from nc that have "new_calls s s'
        = ?adds @ [PersistMockForStream (StreamID fh), ResetStream (StreamID fh)]" by simp
    moreover have "\<forall>c \<in> set ?adds. \<exists>m isPseudo isTrailer.
                         c = AddHeadersForResponse (StreamID fh) m isPseudo isTrailer" by auto
    ultimately show ?thesis by blast
  qed
  from nc have "(PersistMockForStream sid \<in> set (new_calls s s')) =
             (\<not> req \<and> StreamEnded fh \<and> StreamID fh = sid)"
    and "(ResetStream sid \<in> set (new_calls s s')) =
             (\<not> req \<and> StreamEnded fh \<and> StreamID fh = sid)" for sid
    by auto
  with Some pre last show ?thesis by simp
qed

theorem PersistMock_sole_trigger_witness:
  "iteration (table_decoder [([2], [\<lparr>Name = ''grpc-status'', Value = ''0'', Sensitive = False\<rparr>])]) False
     \<lparr>ctx_Err = None,
       ReadFrame = Inr (HeadersFrame \<lparr>Type = 1, Flags = 5, Length = 1, StreamID = 1\<rparr>
                          \<lparr>StreamDep = 0, Exclusive = False, Weight = 0\<rparr> [2]),
       write_err = None, Now = 7\<rparr> relay0
   = (None,
      \<lparr>sic = \<lparr>calls = [AddHeadersForResponse 1 [] True False,
                        AddHeadersForResponse 1 [] False False,
                        AddHeadersForResponse 1 [] True True,
                        AddHeadersForResponse 1 [(''grpc-status'', ''0'')] False True,
                        PersistMockForStream 1,
                        ResetStream 1],
               ReqTimestampMock = 0, ResTimestampMock = 0\<rparr>,
        lhs = [WriteHeaders \<lparr>hfp_StreamID = 1, hfp_BlockFragment = [2], hfp_EndStream = True,
                 hfp_EndHeaders = True, hfp_PadLength = 0,
                 hfp_Priority = \<lparr>StreamDep = 0, Exclusive = False, Weight = 0\<rparr>\<rparr>],
        decoder = 1\<rparr>)
   \<and> headers_processed (table_decoder [([2], [\<lparr>Name = ''grpc-status'', Value = ''0'', Sensitive = False\<rparr>])])
       \<lparr>ctx_Err = None,
         ReadFrame = Inr (HeadersFrame \<lparr>Type = 1, Flags = 5, Length = 1, StreamID = 1\<rparr>
                          \<lparr>StreamDep = 0, Exclusive = False, Weight = 0\<rparr> [2]),
         write_err = None, Now = 7\<rparr> relay0
     = Some \<lparr>Type = 1, Flags = 5, Length = 1, StreamID = 1\<rparr>
   \<and> StreamEnded \<lparr>Type = 1, Flags = 5, Length = 1, StreamID = 1\<rparr>
   \<and> PersistMockForStream 1 \<in> set (new_calls relay0
        (snd (iteration (table_decoder [([2], [\<lparr>Name = ''grpc-status'', Value = ''0'', Sensitive = False\<rparr>])]) False
     \<lparr>ctx_Err = None,
       ReadFrame = Inr (HeadersFrame \<lparr>Type = 1, Flags = 5, Length = 1, StreamID = 1\<rparr>
                          \<lparr>StreamDep = 0, Exclusive = False, Weight = 0\<rparr> [2]),
       write_err = None, Now = 7\<rparr> relay0)))
   \<and> PersistMockForStream 1 \<notin> set (new_calls relay0
        (snd (iteration (table_decoder [([2], [\<lparr>Name = ''grpc-status'', Value = ''0'', Sensitive = False\<rparr>])]) True
     \<lparr>ctx_Err = None,
       ReadFrame = Inr (HeadersFrame \<lparr>Type = 1, Flags = 5, Length = 1, StreamID = 1\<rparr>
                          \<lparr>StreamDep = 0, Exclusive = False, Weight = 0\<rparr> [2]),
       write_err = None, Now = 7\<rparr> relay0)))"
proof -
  let ?D = "table_decoder [([2], [\<lparr>Name = ''grpc-status'', Value = ''0'', Sensitive = False\<rparr>])]"
  let ?fh = "\<lparr>Type = 1, Flags = 5, Length = 1, StreamID = 1\<rparr>"
  let ?e = "\<lparr>ctx_Err = None,
       ReadFrame = Inr (HeadersFrame ?fh \<lparr>StreamDep = 0, Exclusive = False, Weight = 0\<rparr> [2]),
       write_err = None, Now = 7\<rparr>"
  have ended: "StreamEnded ?fh"
    by (simp add: StreamEnded_def Has_def FlagEndStream_def)
  have eh: "HeadersEnded ?fh"
    by (simp add: HeadersEnded_def Has_def FlagEndHeaders_def)
  have x: "extractHeaders ?D [2] 0 = (Inr ([], [(''grpc-status'', ''0'')]), 1)"
    by (simp add: extractHeaders_def table_decoder_def make_map_def assign_def IsPseudo_def)
  have sp: "splitGrpcTrailerHeaders [(''grpc-status'', ''0'')] = ([], [(''grpc-status'', ''0'')])"
    "splitGrpcTrailerHeaders [] = ([], [])"
    by (simp_all add: splitGrpcTrailerHeaders_def make_map_def assign_def HasPrefix_def)
  have hp: "headers_processed ?D ?e relay0 = Some ?fh"
    by (simp add: headers_processed_def relay0_def x)
  have it: "iteration ?D False ?e relay0 = (None,
      \<lparr>sic = \<lparr>calls = [AddHeadersForResponse 1 [] True False,
                        AddHeadersForResponse 1 [] False False,
                        AddHeadersForResponse 1 [] True True,
                        AddHeadersForResponse 1 [(''grpc-status'', ''0'')] False True,
                        PersistMockForStream 1,
                        ResetStream 1],
               ReqTimestampMock = 0, ResTimestampMock = 0\<rparr>,
        lhs = [WriteHeaders \<lparr>hfp_StreamID = 1, hfp_BlockFragment = [2], hfp_EndStream = True,
                 hfp_EndHeaders = True, hfp_PadLength = 0,
                 hfp_Priority = \<lparr>StreamDep = 0, Exclusive = False, Weight = 0\<rparr>\<rparr>],
        decoder = 1\<rparr>)"
    by (simp add: iteration_def Let_def ended eh x sp invoke_def framer_write_def relay0_def sic0_def)
  obtain r s' where it2: "iteration ?D True ?e relay0 = (r, s')"
    by (cases "iteration ?D True ?e relay0")
  from PersistMock_sole_trigger [OF it] hp ended
  have yes: "PersistMockForStream 1 \<in> set (new_calls relay0 (snd (iteration ?D False ?e relay0)))"
    by (simp add: it)
  from PersistMock_sole_trigger [OF it2]
  have no: "PersistMockForStream 1 \<notin> set (new_calls relay0 (snd (iteration ?D True ?e relay0)))"
    by (simp add: it2)
  from it hp ended yes no show ?thesis by blast
qed

section \<open>Timestamps\<close>

lemma iteration_timestamps:
  assumes "iteration D req e s = (None, s')"
  shows "ReqTimestampMock (sic s') = (if req \<and> reads_data e then Now e else ReqTimestampMock (sic s))
       \<and> ResTimestampMock (sic s') = (if \<not> req \<and> reads_data e then Now e else ResTimestampMock (sic s))"
proof (cases "ctx_Err e")
  case (Some c)
  with assms show ?thesis by (simp add: iteration_def)
next
  case None
  show ?thesis
  proof (cases "ReadFrame e")
    case (Inl err)
    with None assms show ?thesis by (simp add: iteration_def split: if_splits)
  next
    case (Inr frame)
    with None assms have d: "dispatch D req e frame s = (None, s')"
      by (simp add: iteration_def)
    have rd: "reads_data e = (\<exists>fh data. frame = DataFrame fh data)"
      using Inr by (auto simp: reads_data_def split: Frame.splits)
    show ?thesis
    proof (cases frame)
      case (HeadersFrame fh priority fragment)
      with d rd show ?thesis
        by (auto simp: Let_def framer_write_def invoke_def
                 split: option.splits sum.splits prod.splits if_splits)
    next
      case (DataFrame fh data)
      with d rd show ?thesis
        by (auto simp: Let_def framer_write_def invoke_def split: option.splits if_splits)
    next
      case (SettingsFrame fh settings)
      with d rd show ?thesis
        by (auto dest!: forward_sic split: if_splits prod.splits option.splits)
    qed (use d rd in \<open>auto dest!: forward_sic\<close>)
  qed
qed

text \<open>
  Claim C5 says that the timestamp recorded in a direction is the instant of the
  first Data frame of the stream. It is not: of two Data frames of stream 1 in
  the request direction, read at the instants 10 and 20, the second one
  overwrites the timestamp of the first.
\<close>

theorem Data_timestamp_first_counterexample:
  "ReqTimestampMock (sic (snd (transferFrame (table_decoder []) True
      [\<lparr>ctx_Err = None,
         ReadFrame = Inr (DataFrame \<lparr>Type = 0, Flags = 0, Length = 1, StreamID = 1\<rparr> [104]),
         write_err = None, Now = 10\<rparr>,
       \<lparr>ctx_Err = None,
         ReadFrame = Inr (DataFrame \<lparr>Type = 0, Flags = 1, Length = 1, StreamID = 1\<rparr> [105]),
         write_err = None, Now = 20\<rparr>] relay0)))
   \<noteq> Now \<lparr>ctx_Err = None,
         ReadFrame = Inr (DataFrame \<lparr>Type = 0, Flags = 0, Length = 1, StreamID = 1\<rparr> [104]),
         write_err = None, Now = 10\<rparr>"
  by (simp add: iteration_def Let_def invoke_def framer_write_def relay0_def sic0_def)

text \<open>
  Claim C5, amended. After a run of iterations that all went round the loop, the
  timestamp of the direction of the run is the instant of the last Data frame
  read in the run, of whatever stream, and the value from before the run when
  the run read no Data frame; the timestamp of the other direction is the one
  from before the run.
\<close>

theorem Data_timestamp_last_wins:
  assumes "transferFrame D req es s = (None, s')"
  shows "(if req then ReqTimestampMock (sic s') else ResTimestampMock (sic s'))
           = (case filter reads_data es of
                [] \<Rightarrow> (if req then ReqTimestampMock (sic s) else ResTimestampMock (sic s))
              | d # ds \<Rightarrow> Now (last (d # ds)))
       \<and> (if req then ResTimestampMock (sic s') = ResTimestampMock (sic s)
           else ReqTimestampMock (sic s') = ReqTimestampMock (sic s))"
  using assms
proof (induction es arbitrary: s)
  case Nil
  then show ?case by simp
next
  case (Cons e es)
  from Cons.prems obtain s1 where
    i: "iteration D req e s = (None, s1)" and t: "transferFrame D req es s1 = (None, s')"
    by (auto split: prod.splits option.splits)
  from Cons.IH [OF t] iteration_timestamps [OF i] show ?case
    by (auto split: list.splits)
qed

theorem Data_timestamp_last_wins_witness:
  "transferFrame (table_decoder []) False
      [\<lparr>ctx_Err = None,
         ReadFrame = Inr (DataFrame \<lparr>Type = 0, Flags = 0, Length = 1, StreamID = 1\<rparr> [104]),
         write_err = None, Now = 10\<rparr>,
       \<lparr>ctx_Err = None,
         ReadFrame = Inr (WindowUpdateFrame \<lparr>Type = 8, Flags = 0, Length = 4, StreamID = 0\<rparr> 1),
         write_err = None, Now = 15\<rparr>,
       \<lparr>ctx_Err = None,
         ReadFrame = Inr (DataFrame \<lparr>Type = 0, Flags = 1, Length = 1, StreamID = 1\<rparr> [105]),
         write_err = None, Now = 20\<rparr>] relay0
    = (None,
       \<lparr>sic = \<lparr>calls = [AddPayloadForResponse 1 [104], AddPayloadForResponse 1 [105]],
                ReqTimestampMock = 0, ResTimestampMock = 20\<rparr>,
         lhs = [WriteData 1 False [104], WriteWindowUpdate 0 1, WriteData 1 True [105]],
         decoder = 0\<rparr>)
   \<and> ResTimestampMock (sic (snd (transferFrame (table_decoder []) False
      [\<lparr>ctx_Err = None,
         ReadFrame = Inr (DataFrame \<lparr>Type = 0, Flags = 0, Length = 1, StreamID = 1\<rparr> [104]),
         write_err = None, Now = 10\<rparr>,
       \<lparr>ctx_Err = None,
         ReadFrame = Inr (WindowUpdateFrame \<lparr>Type = 8, Flags = 0, Length = 4, StreamID = 0\<rparr> 1),
         write_err = None, Now = 15\<rparr>,
       \<lparr>ctx_Err = None,
         ReadFrame = Inr (DataFrame \<lparr>Type = 0, Flags = 1, Length = 1, StreamID = 1\<rparr> [105]),
         write_err = None, Now = 20\<rparr>] relay0))) = 20"
proof -
  let ?es = "[\<lparr>ctx_Err = None,
         ReadFrame = Inr (DataFrame \<lparr>Type = 0, Flags = 0, Length = 1, StreamID = 1\<rparr> [104]),
         write_err = None, Now = 10\<rparr>,
       \<lparr>ctx_Err = None,
         ReadFrame = Inr (WindowUpdateFrame \<lparr>Type = 8, Flags = 0, Length = 4, StreamID = 0\<rparr> 1),
         write_err = None, Now = 15\<rparr>,
       \<lparr>ctx_Err = None,
         ReadFrame = Inr (DataFrame \<lparr>Type = 0, Flags = 1, Length = 1, StreamID = 1\<rparr> [105]),
         write_err = None, Now = 20\<rparr>]"
  have run: "transferFrame (table_decoder []) False ?es relay0
    = (None,
       \<lparr>sic = \<lparr>calls = [AddPayloadForResponse 1 [104], AddPayloadForResponse 1 [105]],
                ReqTimestampMock = 0, ResTimestampMock = 20\<rparr>,
         lhs = [WriteData 1 False [104], WriteWindowUpdate 0 1, WriteData 1 True [105]],
         decoder = 0\<rparr>)"
    by (simp add: iteration_def Let_def invoke_def framer_write_def forward_def relay0_def sic0_def
                  StreamEnded_def Has_def FlagEndStream_def)
  from Data_timestamp_last_wins [OF run]
  have "ResTimestampMock (sic (snd (transferFrame (table_decoder []) False ?es relay0))) = 20"
    unfolding run by (simp add: reads_data_def)
  with run show ?thesis by blast
qed

text \<open>
  Claim C10. The two timestamps are fields of the store itself. A Data frame
  that is forwarded, of any stream identifier, sets the timestamp of its
  direction to the instant of the frame whatever the value before, and leaves
  the timestamp of the other direction; the stream identifier goes into the
  payload call only. So a Data frame of one stream overwrites the timestamp
  that a Data frame of another stream has set.
\<close>

theorem Data_timestamp_collection_level:
  assumes "ctx_Err e = None"
      and "ReadFrame e = Inr (DataFrame fh data)"
      and "write_err e = None"
  shows "ReqTimestampMock (sic (snd (iteration D True e s))) = Now e
       \<and> ResTimestampMock (sic (snd (iteration D True e s))) = ResTimestampMock (sic s)
       \<and> calls (sic (snd (iteration D True e s)))
           = calls (sic s) @ [AddPayloadForRequest (StreamID fh) data]
       \<and> ResTimestampMock (sic (snd (iteration D False e s))) = Now e
       \<and> ReqTimestampMock (sic (snd (iteration D False e s))) = ReqTimestampMock (sic s)
       \<and> calls (sic (snd (iteration D False e s)))
           = calls (sic s) @ [AddPayloadForResponse (StreamID fh) data]
       \<and> fst (iteration D True e s) = None \<and> fst (iteration D False e s) = None"
  using assms by (simp add: iteration_def Let_def invoke_def framer_write_def)

theorem Data_timestamp_collection_level_witness:
  "ReqTimestampMock (sic (snd (iteration (table_decoder []) True
      \<lparr>ctx_Err = None,
        ReadFrame = Inr (DataFrame \<lparr>Type = 0, Flags = 0, Length = 1, StreamID = 3\<rparr> [9]),
        write_err = None, Now = 20\<rparr>
      (snd (iteration (table_decoder []) True
         \<lparr>ctx_Err = None,
           ReadFrame = Inr (DataFrame \<lparr>Type = 0, Flags = 0, Length = 1, StreamID = 1\<rparr> [8]),
           write_err = None, Now = 10\<rparr> relay0))))) = 20
   \<and> ReqTimestampMock (sic (snd (iteration (table_decoder []) True
         \<lparr>ctx_Err = None,
           ReadFrame = Inr (DataFrame \<lparr>Type = 0, Flags = 0, Length = 1, StreamID = 1\<rparr> [8]),
           write_err = None, Now = 10\<rparr> relay0))) = 10"
  using Data_timestamp_collection_level [of
      "\<lparr>ctx_Err = None,
        ReadFrame = Inr (DataFrame \<lparr>Type = 0, Flags = 0, Length = 1, StreamID = 3\<rparr> [9]),
        write_err = None, Now = 20\<rparr>"
      "\<lparr>Type = 0, Flags = 0, Length = 1, StreamID = 3\<rparr>" "[9]" "table_decoder []"
      "snd (iteration (table_decoder []) True
         \<lparr>ctx_Err = None,
           ReadFrame = Inr (DataFrame \<lparr>Type = 0, Flags = 0, Length = 1, StreamID = 1\<rparr> [8]),
           write_err = None, Now = 10\<rparr> relay0)"]
    Data_timestamp_collection_level [of
      "\<lparr>ctx_Err = None,
           ReadFrame = Inr (DataFrame \<lparr>Type = 0, Flags = 0, Length = 1, StreamID = 1\<rparr> [8]),
           write_err = None, Now = 10\<rparr>"
      "\<lparr>Type = 0, Flags = 0, Length = 1, StreamID = 1\<rparr>" "[8]" "table_decoder []" relay0]
  by simp

section \<open>The frames forwarded\<close>

text \<open>
  The write that an iteration makes for each type of frame: the fields of the
  frame read, with the pad length 0 for Headers and PushPromise frames, but for
  a GoAway frame the stream identifier of the header in the place of
  \<^verbatim>\<open>LastStreamID\<close>.
\<close>

lemma forward_lhs: "lhs (snd (forward w msg e s)) = lhs s @ [w]"
  by (simp add: forward_def framer_write_def split: option.splits)

lemma relayed_fields:
  assumes "ctx_Err e = None"
      and "ReadFrame e = Inr frame"
  shows "lhs (snd (iteration D req e s)) = lhs s @
     (case frame of
        SettingsFrame fh settings \<Rightarrow>
          [if IsAck fh then WriteSettingsAck else WriteSettings settings]
      | HeadersFrame fh priority fragment \<Rightarrow>
          [WriteHeaders \<lparr>hfp_StreamID = StreamID fh, hfp_BlockFragment = fragment,
             hfp_EndStream = StreamEnded fh, hfp_EndHeaders = HeadersEnded fh,
             hfp_PadLength = 0, hfp_Priority = priority\<rparr>]
      | DataFrame fh data \<Rightarrow> [WriteData (StreamID fh) (StreamEnded fh) data]
      | PingFrame fh data \<Rightarrow> [WritePing (IsAck fh) data]
      | WindowUpdateFrame fh increment \<Rightarrow> [WriteWindowUpdate (StreamID fh) increment]
      | ContinuationFrame fh fragment \<Rightarrow>
          [WriteContinuation (StreamID fh) (HeadersEnded fh) fragment]
      | PriorityFrame fh priorityParam \<Rightarrow> [WritePriority (StreamID fh) priorityParam]
      | RSTStreamFrame fh errCode \<Rightarrow> [WriteRSTStream (StreamID fh) errCode]
      | GoAwayFrame fh lastStreamID errCode debugData \<Rightarrow>
          [WriteGoAway (StreamID fh) errCode debugData]
      | PushPromiseFrame fh promiseID fragment \<Rightarrow>
          [WritePushPromise \<lparr>ppp_StreamID = StreamID fh, ppp_PromiseID = promiseID,
             ppp_BlockFragment = fragment, ppp_EndHeaders = HeadersEnded fh,
             ppp_PadLength = 0\<rparr>]
      | UnknownFrame fh payload \<Rightarrow> [])"
proof (cases frame)
  case (HeadersFrame fh priority fragment)
  with assms show ?thesis
    by (auto simp: iteration_def Let_def framer_write_def invoke_def
             split: option.splits sum.splits prod.splits)
next
  case (DataFrame fh data)
  with assms show ?thesis
    by (auto simp: iteration_def Let_def framer_write_def invoke_def split: option.splits)
next
  case (SettingsFrame fh settings)
  with assms show ?thesis
    by (simp add: iteration_def ForeachSetting_collect forward_lhs)
qed (use assms in \<open>simp_all add: iteration_def forward_lhs\<close>)

lemma GoAway_forwarded_call:
  assumes "ctx_Err e = None"
      and "ReadFrame e = Inr (GoAwayFrame fh lastStreamID errCode debugData)"
  shows "lhs (snd (iteration D req e s)) = lhs s @ [WriteGoAway (StreamID fh) errCode debugData]"
  using assms by (simp add: iteration_def forward_def framer_write_def split: option.splits)

text \<open>
  Claim C3 says that every supported frame is forwarded with the fields of the
  frame read. For a GoAway frame the relay passes the stream identifier of the
  frame header, which is 0 on every GoAway frame, where \<^verbatim>\<open>WriteGoAway\<close> takes the
  last stream identifier: a GoAway frame read with \<^verbatim>\<open>LastStreamID\<close> 5 is written
  with the last stream identifier 0.
\<close>

theorem GoAway_LastStreamID_not_forwarded:
  "iteration (table_decoder []) False
     \<lparr>ctx_Err = None,
       ReadFrame = Inr (GoAwayFrame \<lparr>Type = 7, Flags = 0, Length = 8, StreamID = 0\<rparr> 5 0 []),
       write_err = None, Now = 1\<rparr> relay0
   = (None, relay0\<lparr>lhs := [WriteGoAway 0 0 []]\<rparr>)"
  by (simp add: iteration_def forward_def framer_write_def relay0_def)

end
